theory Spec2Isabelle
  imports Complex_Main "HOL-Library.Word"
begin

section \<open>JavaScript values\<close>

text \<open>
  A JavaScript string is a sequence of UTF-16 code units, and \<open>text.length\<close> counts
  code units; a string is therefore a list of 16-bit words. JavaScript numbers are
  modelled as reals: the arithmetic of the compositor is taken exactly, without the
  rounding of IEEE doubles.
\<close>

type_synonym jsstring = "16 word list"

definition js :: "string \<Rightarrow> jsstring" where
  "js s = map of_char s"

definition SPACE :: "16 word" where
  "SPACE = 0x20"

text \<open>
  \<open>text.split(' ')\<close>: the pieces between the occurrences of a one-unit separator.
  The empty string gives one empty piece, and two separators in a row give an
  empty piece between them.
\<close>

fun split :: "16 word \<Rightarrow> jsstring \<Rightarrow> jsstring list" where
  "split sep [] = [[]]"
| "split sep (u # us) =
     (if u = sep then [] # split sep us
      else (case split sep us of
              [] \<Rightarrow> [[u]]
            | w # ws \<Rightarrow> (u # w) # ws))"

text \<open>\<open>lines.join(' ')\<close>: the pieces with one separator between neighbours.\<close>

fun join :: "16 word \<Rightarrow> jsstring list \<Rightarrow> jsstring" where
  "join sep [] = []"
| "join sep [w] = w"
| "join sep (w # v # ws) = w @ sep # join sep (v # ws)"

text \<open>
  \<open>text.trim()\<close> removes the leading and trailing code units that ECMAScript
  counts as white space or line terminators.
\<close>

definition isWhiteSpace :: "16 word \<Rightarrow> bool" where
  "isWhiteSpace u \<longleftrightarrow>
     (0x09 \<le> u \<and> u \<le> 0x0D) \<or> u = 0x20 \<or> u = 0xA0 \<or> u = 0x1680 \<or>
     (0x2000 \<le> u \<and> u \<le> 0x200A) \<or> u = 0x2028 \<or> u = 0x2029 \<or> u = 0x202F \<or>
     u = 0x205F \<or> u = 0x3000 \<or> u = 0xFEFF"

definition trim :: "jsstring \<Rightarrow> jsstring" where
  "trim s = rev (dropWhile isWhiteSpace (rev (dropWhile isWhiteSpace s)))"

section \<open>Text layout: \<open>getLines\<close> of \<open>utils/downloadUtils.ts\<close>\<close>

text \<open>
  The loop of \<open>getLines\<close>, with its two variables \<open>lines\<close> and \<open>currentLine\<close> as
  arguments and the words still to come as the third. \<open>measureText\<close> is
  \<open>ctx.measureText(_).width\<close> under the font that is current in the context.
\<close>

fun getLines_loop ::
  "(jsstring \<Rightarrow> real) \<Rightarrow> real \<Rightarrow> jsstring list \<Rightarrow> jsstring \<Rightarrow> jsstring list \<Rightarrow> jsstring list"
where
  "getLines_loop measureText maxWidth lines currentLine [] = lines @ [currentLine]"
| "getLines_loop measureText maxWidth lines currentLine (w # ws) =
     (if measureText (currentLine @ SPACE # w) < maxWidth
      then getLines_loop measureText maxWidth lines (currentLine @ SPACE # w) ws
      else getLines_loop measureText maxWidth (lines @ [currentLine]) w ws)"

definition getLines :: "(jsstring \<Rightarrow> real) \<Rightarrow> jsstring \<Rightarrow> real \<Rightarrow> jsstring list" where
  "getLines measureText text maxWidth =
     (let words = split SPACE text
      in getLines_loop measureText maxWidth [] (hd words) (tl words))"

section \<open>The panel state: \<open>types.ts\<close>\<close>

datatype BubblePosition = TopLeft | TopRight | BottomLeft | BottomRight

datatype BubbleShape = Rounded | Square | Thought

text \<open>The string that a \<open>BubblePosition\<close> is in the source.\<close>

fun posString :: "BubblePosition \<Rightarrow> string" where
  "posString TopLeft = ''top-left''"
| "posString TopRight = ''top-right''"
| "posString BottomLeft = ''bottom-left''"
| "posString BottomRight = ''bottom-right''"

fun startsWith :: "string \<Rightarrow> string \<Rightarrow> bool" where
  "startsWith s [] = True"
| "startsWith [] (c # cs) = False"
| "startsWith (d # ds) (c # cs) = (d = c \<and> startsWith ds cs)"

text \<open>\<open>s.includes(sub)\<close>: \<open>sub\<close> occurs in \<open>s\<close> at some offset.\<close>

fun str_includes :: "string \<Rightarrow> string \<Rightarrow> bool" where
  "str_includes [] sub = (sub = [])"
| "str_includes (d # ds) sub = (startsWith (d # ds) sub \<or> str_includes ds sub)"

definition pos_includes :: "BubblePosition \<Rightarrow> string \<Rightarrow> bool" where
  "pos_includes pos sub = str_includes (posString pos) sub"

text \<open>
  The fields of \<open>PanelData\<close> that the renderers and the editor read or write. The
  renderers guard the position, the shape and the coordinates against \<open>undefined\<close>
  (\<open>||\<close>, \<open>??\<close>, \<open>!== undefined\<close>), so these fields are optional here.
\<close>

record PanelData =
  panelId :: string
  index :: nat
  char1Dialogue :: jsstring
  char1BubblePos :: "BubblePosition option"
  char1BubbleShape :: "BubbleShape option"
  char1BubbleX :: "real option"
  char1BubbleY :: "real option"
  char2Dialogue :: jsstring
  char2BubblePos :: "BubblePosition option"
  char2BubbleShape :: "BubbleShape option"
  char2BubbleX :: "real option"
  char2BubbleY :: "real option"
  imageUrl :: "string option"
  isLoading :: bool

section \<open>The raster compositor: \<open>generateDownloadableImage\<close> of \<open>utils/downloadUtils.ts\<close>\<close>

text \<open>
  The canvas once the image has loaded: its size is the natural size of the image,
  \<open>measureText f s\<close> is \<open>ctx.measureText(s).width\<close> while the font of the context is
  bold \<open>f\<close> px, and \<open>hasRoundRect\<close> says whether the context has \<open>roundRect\<close>.
\<close>

record canvas =
  width :: nat
  height :: nat
  measureText :: "int \<Rightarrow> jsstring \<Rightarrow> real"
  hasRoundRect :: bool

text \<open>
  What is drawn, in order. A shape is one path that is filled and stroked; the flag of
  a bubble's box says whether its stroke is dashed.
\<close>

datatype draw_op =
    DrawImage
  | SetFont int
  | SetLineWidth real
  | RoundRect real real real real real bool
  | Rect real real real real bool
  | Arc real real real
  | Triangle "real \<times> real" "real \<times> real" "real \<times> real"
  | FillRect real real real real
  | FillText jsstring real real

definition SCALE :: "canvas \<Rightarrow> real" where
  "SCALE c = real (width c) / 320"

definition PADDING :: "canvas \<Rightarrow> real" where
  "PADDING c = 8 * SCALE c"

definition RADIUS_XL :: "canvas \<Rightarrow> real" where
  "RADIUS_XL c = 12 * SCALE c"

definition RADIUS_SM :: "canvas \<Rightarrow> real" where
  "RADIUS_SM c = 2 * SCALE c"

definition RADIUS_THOUGHT :: "canvas \<Rightarrow> real" where
  "RADIUS_THOUGHT c = 32 * SCALE c"

definition MIN_WIDTH :: "canvas \<Rightarrow> real" where
  "MIN_WIDTH c = 60 * SCALE c"

subsection \<open>The local constants of \<open>drawBubble\<close>\<close>

definition maxBubbleWidth :: "canvas \<Rightarrow> real" where
  "maxBubbleWidth c = real (width c) * 0.35"

definition fontSize :: "jsstring \<Rightarrow> real" where
  "fontSize text =
     (let len = length text
      in if len < 20 then 38 else if len < 50 then 32 else 29)"

definition lineHeight :: "jsstring \<Rightarrow> real" where
  "lineHeight text = fontSize text * 1.1"

definition bubbleLines :: "canvas \<Rightarrow> jsstring \<Rightarrow> jsstring list" where
  "bubbleLines c text =
     getLines (measureText c \<lfloor>fontSize text\<rfloor>) text (maxBubbleWidth c - PADDING c * 2)"

definition textBlockWidth :: "canvas \<Rightarrow> jsstring \<Rightarrow> real" where
  "textBlockWidth c text =
     foldl (\<lambda>textBlockWidth l.
              let w = measureText c \<lfloor>fontSize text\<rfloor> l
              in if w > textBlockWidth then w else textBlockWidth)
       0 (bubbleLines c text)"

definition bubbleWidth :: "canvas \<Rightarrow> jsstring \<Rightarrow> real" where
  "bubbleWidth c text = max (textBlockWidth c text + PADDING c * 2) (MIN_WIDTH c)"

definition bubbleHeight :: "canvas \<Rightarrow> jsstring \<Rightarrow> real" where
  "bubbleHeight c text =
     real (length (bubbleLines c text)) * lineHeight text + PADDING c * 2"

definition bubbleXY :: "canvas \<Rightarrow> real option \<Rightarrow> real option \<Rightarrow> real \<times> real" where
  "bubbleXY c posX posY =
     (case (posX, posY) of
        (Some px, Some py) \<Rightarrow> (real (width c) * (px / 100), real (height c) * (py / 100))
      | _ \<Rightarrow> (30, 30))"

definition radius :: "canvas \<Rightarrow> BubbleShape \<Rightarrow> real" where
  "radius c shape =
     (let r = RADIUS_XL c;
          r = (if shape = Square then RADIUS_SM c else r);
          r = (if shape = Thought then RADIUS_THOUGHT c else r)
      in r)"

definition borderWidth :: "canvas \<Rightarrow> real" where
  "borderWidth c = 1 * SCALE c"

definition tailSize :: "canvas \<Rightarrow> real" where
  "tailSize c = 10 * SCALE c"

definition tailOffset :: "canvas \<Rightarrow> real" where
  "tailOffset c = 16 * SCALE c"

definition tailHeight :: "canvas \<Rightarrow> real" where
  "tailHeight c = 8 * SCALE c"

text \<open>The branch for a thought bubble: the large dot, then the small one further out.\<close>

definition drawDots ::
  "canvas \<Rightarrow> BubblePosition \<Rightarrow> real \<Rightarrow> real \<Rightarrow> real \<Rightarrow> real \<Rightarrow> draw_op list" where
  "drawDots c pos x y bubbleW bubbleH =
     (let dotSizeL = 8 * SCALE c * 0.4;
          dotSizeS = 4 * SCALE c * 0.4;
          dotX = (if pos_includes pos ''right''
                  then x + bubbleW - (40 * SCALE c * 0.5)
                  else x + (40 * SCALE c * 0.5));
          dotY = (if pos_includes pos ''bottom''
                  then y - (15 * SCALE c * 0.5)
                  else y + bubbleH + (15 * SCALE c * 0.5));
          offsetY = (if pos_includes pos ''bottom''
                     then - (15 * SCALE c * 0.5) else 15 * SCALE c * 0.5)
      in [Arc dotX dotY dotSizeL,
          Arc (dotX + (if pos_includes pos ''right''
                       then 10 * SCALE c * 0.5 else - (10 * SCALE c * 0.5)))
              (dotY + offsetY) dotSizeS])"

text \<open>The base of the triangular tail on the bubble's edge, the same in both branches.\<close>

definition baseX1 :: "canvas \<Rightarrow> BubblePosition \<Rightarrow> real \<Rightarrow> real \<Rightarrow> real" where
  "baseX1 c pos x bubbleW =
     (if pos_includes pos ''left'' then x + tailOffset c
      else x + bubbleW - tailOffset c - tailSize c)"

definition baseX2 :: "canvas \<Rightarrow> BubblePosition \<Rightarrow> real \<Rightarrow> real \<Rightarrow> real" where
  "baseX2 c pos x bubbleW = baseX1 c pos x bubbleW + tailSize c"

text \<open>The branch for the other shapes: the triangle, then the white cover of the seam.\<close>

definition drawTail ::
  "canvas \<Rightarrow> BubblePosition \<Rightarrow> real \<Rightarrow> real \<Rightarrow> real \<Rightarrow> real \<Rightarrow> draw_op list" where
  "drawTail c pos x y bubbleW bubbleH =
     (let triangle =
            (if pos_includes pos ''bottom''
             then (let tailBaseY = y;
                       tipX = (if pos_includes pos ''left''
                               then baseX1 c pos x bubbleW else baseX2 c pos x bubbleW);
                       tipY = y - tailHeight c
                   in Triangle (baseX1 c pos x bubbleW, tailBaseY) (tipX, tipY)
                        (baseX2 c pos x bubbleW, tailBaseY))
             else (let tailBaseY = y + bubbleH;
                       tipX = (if pos_includes pos ''left''
                               then baseX1 c pos x bubbleW else baseX2 c pos x bubbleW);
                       tipY = y + bubbleH + tailHeight c
                   in Triangle (baseX1 c pos x bubbleW, tailBaseY) (tipX, tipY)
                        (baseX2 c pos x bubbleW, tailBaseY)));
          coverH = borderWidth c * 2;
          coverW = tailSize c - (borderWidth c * 2);
          coverX = (if pos_includes pos ''left''
                    then x + tailOffset c + borderWidth c
                    else x + bubbleW - tailOffset c - tailSize c + borderWidth c)
      in [triangle,
          (if pos_includes pos ''bottom''
           then FillRect coverX (y - (coverH / 2)) coverW coverH
           else FillRect coverX (y + bubbleH - (coverH / 2)) coverW coverH)])"

definition drawText :: "canvas \<Rightarrow> jsstring \<Rightarrow> real \<Rightarrow> real \<Rightarrow> draw_op list" where
  "drawText c text x y =
     (let textCenterX = x + (bubbleWidth c text / 2)
      in map (\<lambda>(index, line).
                FillText line textCenterX (y + PADDING c + (real index * lineHeight text)))
           (enumerate 0 (bubbleLines c text)))"

subsection \<open>\<open>drawBubble\<close> and the drawing of a panel\<close>

definition drawBubble ::
  "canvas \<Rightarrow> jsstring \<Rightarrow> BubblePosition \<Rightarrow> BubbleShape \<Rightarrow> real option \<Rightarrow> real option
     \<Rightarrow> draw_op list" where
  "drawBubble c text pos shape posX posY =
     (if trim text = [] then []
      else
        (let (x, y) = bubbleXY c posX posY;
             box = (if hasRoundRect c
                    then RoundRect x y (bubbleWidth c text) (bubbleHeight c text)
                           (radius c shape) (shape = Thought)
                    else Rect x y (bubbleWidth c text) (bubbleHeight c text) (shape = Thought))
         in [SetFont \<lfloor>fontSize text\<rfloor>, SetLineWidth (borderWidth c), box]
            @ (if shape = Thought
               then drawDots c pos x y (bubbleWidth c text) (bubbleHeight c text)
               else drawTail c pos x y (bubbleWidth c text) (bubbleHeight c text))
            @ drawText c text x y))"

text \<open>
  The body of \<open>img.onload\<close>: the image, the bubble of each character whose dialogue is
  not the empty string, and the watermark. Without an image URL the function returns
  \<open>null\<close> before it draws.
\<close>

definition generateDownloadableImage :: "canvas \<Rightarrow> PanelData \<Rightarrow> draw_op list option" where
  "generateDownloadableImage c panel =
     (if imageUrl panel = None \<or> imageUrl panel = Some [] then None
      else Some
        ([DrawImage]
         @ (if char1Dialogue panel \<noteq> []
            then drawBubble c (char1Dialogue panel)
                   (case char1BubblePos panel of None \<Rightarrow> TopLeft | Some p \<Rightarrow> p)
                   (case char1BubbleShape panel of None \<Rightarrow> Rounded | Some s \<Rightarrow> s)
                   (char1BubbleX panel) (char1BubbleY panel)
            else [])
         @ (if char2Dialogue panel \<noteq> []
            then drawBubble c (char2Dialogue panel)
                   (case char2BubblePos panel of None \<Rightarrow> TopRight | Some p \<Rightarrow> p)
                   (case char2BubbleShape panel of None \<Rightarrow> Rounded | Some s \<Rightarrow> s)
                   (char2BubbleX panel) (char2BubbleY panel)
            else [])
         @ [SetFont \<lfloor>14 * SCALE c\<rfloor>,
            FillText (js ''@tipmarketolog'')
              (real (width c) - (10 * SCALE c)) (real (height c) - (10 * SCALE c))]))"

subsection \<open>Reading a drawing\<close>

text \<open>The kinds of shapes, to select the shapes of one kind from what was drawn.\<close>

fun isBox :: "draw_op \<Rightarrow> bool" where
  "isBox (RoundRect x y w h r d) = True"
| "isBox (Rect x y w h d) = True"
| "isBox _ = False"

fun isArc :: "draw_op \<Rightarrow> bool" where
  "isArc (Arc x y r) = True"
| "isArc _ = False"

fun isTriangle :: "draw_op \<Rightarrow> bool" where
  "isTriangle (Triangle a b d) = True"
| "isTriangle _ = False"

fun isFillRect :: "draw_op \<Rightarrow> bool" where
  "isFillRect (FillRect x y w h) = True"
| "isFillRect _ = False"

section \<open>The interactive renderer: \<open>ComicPanel\<close>\<close>

text \<open>
  A \<open>className\<close> is modelled as the list of the class names that the string holds
  between its spaces. The preview of \<open>PanelEditor\<close> repeats these helpers word for word.
\<close>

definition getFontSizeClass :: "jsstring \<Rightarrow> string list" where
  "getFontSizeClass text =
     (let len = length text
      in if len < 20 then [''text-xs'']
         else if len < 50 then [''text-[10px]'']
         else [''text-[9px]''])"

fun getShapeClass :: "BubbleShape option \<Rightarrow> string list" where
  "getShapeClass (Some Square) = [''rounded-sm'']"
| "getShapeClass (Some Thought) = [''rounded-[2rem]'', ''border-dashed'']"
| "getShapeClass _ = [''rounded-xl'']"

definition getTailClass ::
  "BubblePosition option \<Rightarrow> BubbleShape option \<Rightarrow> bool \<Rightarrow> string list" where
  "getTailClass pos shape isChar1 =
     (let p = (case pos of None \<Rightarrow> (if isChar1 then TopLeft else TopRight) | Some q \<Rightarrow> q);
          s = (case shape of None \<Rightarrow> Rounded | Some t \<Rightarrow> t)
      in if s = Thought then [''hidden'']
         else
           (let size = [''w-2.5'', ''h-2.5'']
            in if pos_includes p ''top''
               then (if pos_includes p ''left''
                     then [''absolute'', ''-bottom-2'', ''left-4''] @ size
                          @ [''bg-white'', ''border-b'', ''border-r'', ''border-black'',
                             ''transform'', ''rotate-45'']
                     else [''absolute'', ''-bottom-2'', ''right-4''] @ size
                          @ [''bg-white'', ''border-b'', ''border-r'', ''border-black'',
                             ''transform'', ''rotate-45''])
               else (if pos_includes p ''left''
                     then [''absolute'', ''-top-2'', ''left-4''] @ size
                          @ [''bg-white'', ''border-t'', ''border-l'', ''border-black'',
                             ''transform'', ''rotate-45'']
                     else [''absolute'', ''-top-2'', ''right-4''] @ size
                          @ [''bg-white'', ''border-t'', ''border-l'', ''border-black'',
                             ''transform'', ''rotate-45''])))"

definition getTailCoverClass ::
  "BubblePosition option \<Rightarrow> BubbleShape option \<Rightarrow> bool \<Rightarrow> string list" where
  "getTailCoverClass pos shape isChar1 =
     (let s = (case shape of None \<Rightarrow> Rounded | Some t \<Rightarrow> t)
      in if s = Thought then [''hidden'']
         else
           (let p = (case pos of None \<Rightarrow> (if isChar1 then TopLeft else TopRight) | Some q \<Rightarrow> q);
                w = ''w-4'';
                h = ''h-1.5''
            in if pos_includes p ''top''
               then (if pos_includes p ''left''
                     then [''absolute'', ''bottom-0'', ''left-4'', w, h, ''bg-white'']
                     else [''absolute'', ''bottom-0'', ''right-4'', w, h, ''bg-white''])
               else (if pos_includes p ''left''
                     then [''absolute'', ''top-0'', ''left-4'', w, h, ''bg-white'']
                     else [''absolute'', ''top-0'', ''right-4'', w, h, ''bg-white''])))"

text \<open>
  The element of \<open>renderThoughtTail\<close>: a column container with the large dot as its
  first child and the small dot as its second.
\<close>

record thought_tail =
  containerClass :: "string list"
  largeDotClass :: "string list"
  smallDotClass :: "string list"

definition renderThoughtTail :: "BubblePosition option \<Rightarrow> bool \<Rightarrow> thought_tail" where
  "renderThoughtTail pos isChar1 =
     (let p = (case pos of None \<Rightarrow> (if isChar1 then TopLeft else TopRight) | Some q \<Rightarrow> q);
          isTop = pos_includes p ''top'';
          isLeft = pos_includes p ''left''
      in \<lparr> containerClass =
             [''absolute'', ''flex'', ''flex-col'', ''items-center'', ''gap-0.5'',
              ''pointer-events-none'', ''z-0'',
              (if isTop then ''-bottom-5'' else ''-top-5''),
              (if isLeft then ''left-6'' else ''right-6'')],
           largeDotClass =
             [''w-2'', ''h-2'', ''bg-white'', ''border'', ''border-black'', ''rounded-full'']
             @ (if isTop then [] else [''order-last'']),
           smallDotClass =
             [''w-1'', ''h-1'', ''bg-white'', ''border'', ''border-black'', ''rounded-full'',
              (if isTop then ''translate-y-1'' else ''-translate-y-1'')] \<rparr>)"

text \<open>
  The positioned element of one bubble: the \<open>left\<close> and \<open>top\<close> of its style in percent,
  the classes of the inner box that depend on the panel, its text, and its children.
\<close>

record bubble_element =
  leftPct :: real
  topPct :: real
  fontSizeClass :: "string list"
  shapeClass :: "string list"
  content :: jsstring
  tailClass :: "string list"
  tailCoverClass :: "string list"
  thoughtTail :: "thought_tail option"

definition char1Bubble :: "PanelData \<Rightarrow> bubble_element list" where
  "char1Bubble panel =
     (if char1Dialogue panel \<noteq> []
      then [\<lparr> leftPct = (case char1BubbleX panel of None \<Rightarrow> 5 | Some v \<Rightarrow> v),
              topPct = (case char1BubbleY panel of None \<Rightarrow> 5 | Some v \<Rightarrow> v),
              fontSizeClass = getFontSizeClass (char1Dialogue panel),
              shapeClass = getShapeClass (char1BubbleShape panel),
              content = char1Dialogue panel,
              tailClass = getTailClass (char1BubblePos panel) (char1BubbleShape panel) True,
              tailCoverClass =
                getTailCoverClass (char1BubblePos panel) (char1BubbleShape panel) True,
              thoughtTail =
                (if char1BubbleShape panel = Some Thought
                 then Some (renderThoughtTail (char1BubblePos panel) True) else None) \<rparr>]
      else [])"

definition char2Bubble :: "PanelData \<Rightarrow> bubble_element list" where
  "char2Bubble panel =
     (if char2Dialogue panel \<noteq> []
      then [\<lparr> leftPct = (case char2BubbleX panel of None \<Rightarrow> 55 | Some v \<Rightarrow> v),
              topPct = (case char2BubbleY panel of None \<Rightarrow> 5 | Some v \<Rightarrow> v),
              fontSizeClass = getFontSizeClass (char2Dialogue panel),
              shapeClass = getShapeClass (char2BubbleShape panel),
              content = char2Dialogue panel,
              tailClass = getTailClass (char2BubblePos panel) (char2BubbleShape panel) False,
              tailCoverClass =
                getTailCoverClass (char2BubblePos panel) (char2BubbleShape panel) False,
              thoughtTail =
                (if char2BubbleShape panel = Some Thought
                 then Some (renderThoughtTail (char2BubblePos panel) False) else None) \<rparr>]
      else [])"

text \<open>
  The bubble overlay of \<open>ComicPanel\<close>: nothing while the panel is loading or has no
  image, else the bubble of character 1 and the bubble of character 2.
\<close>

definition ComicPanel :: "PanelData \<Rightarrow> bubble_element list" where
  "ComicPanel panel =
     (if \<not> isLoading panel \<and> imageUrl panel \<noteq> None \<and> imageUrl panel \<noteq> Some []
      then char1Bubble panel @ char2Bubble panel
      else [])"

section \<open>The editor: \<open>handleQuickPos\<close> of \<open>PanelEditor\<close> and \<open>updatePanel\<close>\<close>

text \<open>
  A \<open>Partial<PanelData>\<close> is the list of its keys with their values; spreading it over
  a panel assigns them in order.
\<close>

datatype field_update =
    Char1BubblePos BubblePosition
  | Char1BubbleX real
  | Char1BubbleY real
  | Char2BubblePos BubblePosition
  | Char2BubbleX real
  | Char2BubbleY real

fun assign :: "PanelData \<Rightarrow> field_update \<Rightarrow> PanelData" where
  "assign p (Char1BubblePos v) = p\<lparr>char1BubblePos := Some v\<rparr>"
| "assign p (Char1BubbleX v) = p\<lparr>char1BubbleX := Some v\<rparr>"
| "assign p (Char1BubbleY v) = p\<lparr>char1BubbleY := Some v\<rparr>"
| "assign p (Char2BubblePos v) = p\<lparr>char2BubblePos := Some v\<rparr>"
| "assign p (Char2BubbleX v) = p\<lparr>char2BubbleX := Some v\<rparr>"
| "assign p (Char2BubbleY v) = p\<lparr>char2BubbleY := Some v\<rparr>"

definition updatePanel :: "string \<Rightarrow> field_update list \<Rightarrow> PanelData list \<Rightarrow> PanelData list" where
  "updatePanel ident updates panels =
     map (\<lambda>p. if panelId p = ident then foldl assign p updates else p) panels"

definition handleQuickPos ::
  "(string \<Rightarrow> field_update list \<Rightarrow> 's \<Rightarrow> 's) \<Rightarrow> string \<Rightarrow> BubblePosition \<Rightarrow> bool \<Rightarrow> 's \<Rightarrow> 's"
where
  "handleQuickPos onUpdate ident pos isChar1 =
     (let (x, y) = (5, 5);
          (x, y) = (if pos = TopRight then (55, 5) else (x, y));
          (x, y) = (if pos = BottomLeft then (5, 70) else (x, y));
          (x, y) = (if pos = BottomRight then (55, 70) else (x, y));
          updates = (if isChar1
                     then [Char1BubblePos pos, Char1BubbleX x, Char1BubbleY y]
                     else [Char2BubblePos pos, Char2BubbleX x, Char2BubbleY y])
      in onUpdate ident updates)"

section \<open>Properties of the text layout\<close>

lemma split_not_Nil: "split sep s \<noteq> []"
  by (induction s) (auto split: list.splits)

lemma join_Cons: "ws \<noteq> [] \<Longrightarrow> join sep (w # ws) = w @ sep # join sep ws"
  by (cases ws) simp_all

lemma join_split: "join sep (split sep s) = s"
proof (induction s)
  case Nil
  show ?case by simp
next
  case (Cons u us)
  obtain w ws where sp: "split sep us = w # ws"
    using split_not_Nil [of sep us] by (cases "split sep us") auto
  show ?case
  proof (cases "u = sep")
    case True
    with Cons show ?thesis by (simp add: join_Cons split_not_Nil)
  next
    case False
    from Cons sp have "join sep (w # ws) = us" by simp
    then have "join sep ((u # w) # ws) = u # us"
      by (cases ws) auto
    with False sp show ?thesis by simp
  qed
qed

text \<open>
  What the loop keeps: the lines so far, the current line and the words to come, joined
  by single spaces, are always the same string.
\<close>

lemma getLines_loop_join:
  "join SPACE (getLines_loop m mw ls cur ws) = join SPACE (ls @ cur # ws)"
proof (induction ws arbitrary: ls cur)
  case Nil
  show ?case by simp
next
  case (Cons w ws)
  have "join SPACE (ls @ (cur @ SPACE # w) # ws) = join SPACE (ls @ cur # w # ws)"
  proof (induction ls rule: join.induct)
    case (1 sep)
    show ?case by (cases ws) simp_all
  next
    case (2 sep l)
    show ?case by (cases ws) simp_all
  next
    case (3 sep l v vs)
    then show ?case by simp
  qed
  with Cons show ?case by simp
qed

text \<open>
  A line of the result is a line that was already there, or a word of the input on its
  own, or a line whose measured width was found below the maximum when its last word
  was appended.
\<close>

lemma getLines_loop_lines:
  assumes "l \<in> set (getLines_loop m mw ls cur ws)"
  shows "l \<in> set ls \<or> l = cur \<or> l \<in> set ws \<or> m l < mw"
  using assms
proof (induction ws arbitrary: ls cur)
  case Nil
  then show ?case by auto
next
  case (Cons w ws)
  show ?case
  proof (cases "m (cur @ SPACE # w) < mw")
    case True
    with Cons.prems have "l \<in> set (getLines_loop m mw ls (cur @ SPACE # w) ws)"
      by simp
    from Cons.IH [OF this] True show ?thesis by auto
  next
    case False
    with Cons.prems have "l \<in> set (getLines_loop m mw (ls @ [cur]) w ws)"
      by simp
    from Cons.IH [OF this] show ?thesis by auto
  qed
qed

lemma getLines_loop_not_Nil: "getLines_loop m mw ls cur ws \<noteq> []"
  by (induction ws arbitrary: ls cur) auto

text \<open>
  Claim C2 (wrap correctness). For every text, maximum width and measurement function,
  \<open>getLines\<close> returns at least one line; a returned line whose measured width exceeds
  the maximum width is a single word of the text, unmodified; and the returned lines
  joined with single spaces are the text again.
\<close>

theorem getLines_wrap_correct:
  "getLines m text maxWidth \<noteq> [] \<and>
   (\<forall>l \<in> set (getLines m text maxWidth).
      m l \<le> maxWidth \<or> (l \<in> set (split SPACE text) \<and> maxWidth < m l)) \<and>
   join SPACE (getLines m text maxWidth) = text"
proof (intro conjI ballI)
  show "getLines m text maxWidth \<noteq> []"
    by (simp add: getLines_def Let_def getLines_loop_not_Nil)
next
  fix l
  assume "l \<in> set (getLines m text maxWidth)"
  then have "l \<in> set (getLines_loop m maxWidth [] (hd (split SPACE text)) (tl (split SPACE text)))"
    by (simp add: getLines_def Let_def)
  from getLines_loop_lines [OF this]
  have "l = hd (split SPACE text) \<or> l \<in> set (tl (split SPACE text)) \<or> m l < maxWidth"
    by simp
  moreover have "hd (split SPACE text) \<in> set (split SPACE text)"
    by (simp add: split_not_Nil)
  moreover have "set (tl (split SPACE text)) \<subseteq> set (split SPACE text)"
    by (cases "split SPACE text") auto
  ultimately have "l \<in> set (split SPACE text) \<or> m l < maxWidth"
    by auto
  then show "m l \<le> maxWidth \<or> (l \<in> set (split SPACE text) \<and> maxWidth < m l)"
    by linarith
next
  have "join SPACE (getLines m text maxWidth) =
        join SPACE (hd (split SPACE text) # tl (split SPACE text))"
    by (simp add: getLines_def Let_def getLines_loop_join)
  also have "hd (split SPACE text) # tl (split SPACE text) = split SPACE text"
    by (simp add: split_not_Nil)
  finally show "join SPACE (getLines m text maxWidth) = text"
    by (simp add: join_split)
qed

text \<open>
  The theorem at the text \<open>a b c\<close>, measured by its length, with maximum width 4:
  the lines are \<open>a b\<close> and \<open>c\<close>, and the line \<open>a b\<close> is within the width.
\<close>

theorem getLines_wrap_correct_witness:
  "getLines (\<lambda>s. real (length s)) (js ''a b c'') 4 = [js ''a b'', js ''c''] \<and>
   getLines (\<lambda>s. real (length s)) (js ''a b c'') 4 \<noteq> [] \<and>
   (real (length (js ''a b'')) \<le> 4 \<or>
    (js ''a b'' \<in> set (split SPACE (js ''a b c'')) \<and> 4 < real (length (js ''a b'')))) \<and>
   join SPACE (getLines (\<lambda>s. real (length s)) (js ''a b c'') 4) = js ''a b c''"
proof -
  have e: "getLines (\<lambda>s. real (length s)) (js ''a b c'') 4 = [js ''a b'', js ''c'']"
    by (simp add: getLines_def js_def SPACE_def)
  then have mem: "js ''a b'' \<in> set (getLines (\<lambda>s. real (length s)) (js ''a b c'') 4)"
    by simp
  note t = getLines_wrap_correct [of "\<lambda>s. real (length s)" "js ''a b c''" 4]
  note t1 = t [THEN conjunct1]
  note t2 = t [THEN conjunct2, THEN conjunct1, THEN bspec, OF mem]
  note t3 = t [THEN conjunct2, THEN conjunct2]
  show ?thesis
    by (rule conjI [OF e conjI [OF t1 conjI [OF t2 t3]]])
qed

section \<open>Properties of the raster compositor\<close>

text \<open>What \<open>pos.includes\<close> answers on each of the four positions.\<close>

lemma pos_includes_top: "pos_includes p ''top'' \<longleftrightarrow> p = TopLeft \<or> p = TopRight"
  by (cases p) (simp_all add: pos_includes_def)

lemma pos_includes_bottom: "pos_includes p ''bottom'' \<longleftrightarrow> p = BottomLeft \<or> p = BottomRight"
  by (cases p) (simp_all add: pos_includes_def)

lemma pos_includes_left: "pos_includes p ''left'' \<longleftrightarrow> p = TopLeft \<or> p = BottomLeft"
  by (cases p) (simp_all add: pos_includes_def)

lemma pos_includes_right: "pos_includes p ''right'' \<longleftrightarrow> p = TopRight \<or> p = BottomRight"
  by (cases p) (simp_all add: pos_includes_def)

lemma SCALE_nonneg: "0 \<le> SCALE c"
  by (simp add: SCALE_def)

lemma SCALE_pos: "0 < width c \<Longrightarrow> 0 < SCALE c"
  by (simp add: SCALE_def)

lemma trim_Nil_iff: "trim s = [] \<longleftrightarrow> (\<forall>u \<in> set s. isWhiteSpace u)"
proof
  assume "trim s = []"
  then have a: "\<forall>x \<in> set (dropWhile isWhiteSpace s). isWhiteSpace x"
    by (simp add: trim_def)
  have "dropWhile isWhiteSpace s = []"
  proof (rule ccontr)
    assume n: "dropWhile isWhiteSpace s \<noteq> []"
    then have "\<not> isWhiteSpace (hd (dropWhile isWhiteSpace s))"
      by (rule hd_dropWhile)
    moreover from n have "hd (dropWhile isWhiteSpace s) \<in> set (dropWhile isWhiteSpace s)"
      by simp
    ultimately show False using a by blast
  qed
  then show "\<forall>u \<in> set s. isWhiteSpace u" by simp
next
  assume "\<forall>u \<in> set s. isWhiteSpace u"
  then have d: "dropWhile isWhiteSpace s = []" by simp
  show "trim s = []" unfolding trim_def d by simp
qed

lemma drawBubble_blank: "trim text = [] \<Longrightarrow> drawBubble c text pos shape posX posY = []"
  by (simp add: drawBubble_def)

lemma drawBubble_nonblank:
  "trim text \<noteq> [] \<Longrightarrow>
   drawBubble c text pos shape posX posY =
     [SetFont \<lfloor>fontSize text\<rfloor>, SetLineWidth (borderWidth c),
      (if hasRoundRect c
       then RoundRect (fst (bubbleXY c posX posY)) (snd (bubbleXY c posX posY))
              (bubbleWidth c text) (bubbleHeight c text) (radius c shape) (shape = Thought)
       else Rect (fst (bubbleXY c posX posY)) (snd (bubbleXY c posX posY))
              (bubbleWidth c text) (bubbleHeight c text) (shape = Thought))]
     @ (if shape = Thought
        then drawDots c pos (fst (bubbleXY c posX posY)) (snd (bubbleXY c posX posY))
               (bubbleWidth c text) (bubbleHeight c text)
        else drawTail c pos (fst (bubbleXY c posX posY)) (snd (bubbleXY c posX posY))
               (bubbleWidth c text) (bubbleHeight c text))
     @ drawText c text (fst (bubbleXY c posX posY)) (snd (bubbleXY c posX posY))"
  by (simp add: drawBubble_def case_prod_beta Let_def)

lemma filter_drawText:
  "filter isBox (drawText c text x y) = []"
  "filter isArc (drawText c text x y) = []"
  "filter isTriangle (drawText c text x y) = []"
  "filter isFillRect (drawText c text x y) = []"
  by (auto simp: drawText_def Let_def filter_empty_conv)

lemma bubbleLines_single:
  "SPACE \<notin> set text \<Longrightarrow> bubbleLines c text = [text]"
proof -
  assume a: "SPACE \<notin> set text"
  have "\<And>t. SPACE \<notin> set t \<Longrightarrow> split SPACE t = [t]"
  proof -
    fix t show "SPACE \<notin> set t \<Longrightarrow> split SPACE t = [t]"
      by (induction t) auto
  qed
  with a show ?thesis by (simp add: bubbleLines_def getLines_def)
qed

text \<open>
  The constants that are written as multiples of \<open>SCALE\<close> do scale: on a canvas \<open>k\<close>
  times as wide, padding, radius, minimum width, border width and tail size are \<open>k\<close>
  times as large.
\<close>

lemma scaled_constants:
  assumes "real (width c2) = k * real (width c1)"
  shows "SCALE c2 = k * SCALE c1" and "PADDING c2 = k * PADDING c1"
    and "radius c2 shape = k * radius c1 shape" and "MIN_WIDTH c2 = k * MIN_WIDTH c1"
    and "borderWidth c2 = k * borderWidth c1" and "tailSize c2 = k * tailSize c1"
  using assms
  by (simp_all add: SCALE_def PADDING_def radius_def RADIUS_XL_def RADIUS_SM_def
      RADIUS_THOUGHT_def MIN_WIDTH_def borderWidth_def tailSize_def)

text \<open>
  Claim C1 (scale invariance). The comment of the compositor says that font size, padding
  and radius are all scaled in proportion, but the font size is one of the fixed numbers
  38, 32 and 29, which are the scaled sizes of a canvas 1024 wide only. At the text
  \<open>Hi\<close>, on a canvas 320 wide (scale factor 1) and one 640 wide (scale factor 2), for
  every measurement function: the padding doubles, the font stays at 38 px, and the
  bubble height goes from 57.8 to 73.8, which is not twice as much.
\<close>

theorem font_size_not_scaled:
  "\<forall>m h r.
     SCALE \<lparr>width = 320, height = h, measureText = m, hasRoundRect = r\<rparr> = 1 \<and>
     SCALE \<lparr>width = 640, height = h, measureText = m, hasRoundRect = r\<rparr> = 2 \<and>
     PADDING \<lparr>width = 320, height = h, measureText = m, hasRoundRect = r\<rparr> = 8 \<and>
     PADDING \<lparr>width = 640, height = h, measureText = m, hasRoundRect = r\<rparr> = 2 * 8 \<and>
     hd (drawBubble \<lparr>width = 320, height = h, measureText = m, hasRoundRect = r\<rparr>
          (js ''Hi'') TopLeft Rounded (Some 5) (Some 5)) = SetFont 38 \<and>
     hd (drawBubble \<lparr>width = 640, height = h, measureText = m, hasRoundRect = r\<rparr>
          (js ''Hi'') TopLeft Rounded (Some 5) (Some 5)) = SetFont 38 \<and>
     bubbleHeight \<lparr>width = 320, height = h, measureText = m, hasRoundRect = r\<rparr> (js ''Hi'')
       = 57.8 \<and>
     bubbleHeight \<lparr>width = 640, height = h, measureText = m, hasRoundRect = r\<rparr> (js ''Hi'')
       = 73.8 \<and>
     bubbleHeight \<lparr>width = 640, height = h, measureText = m, hasRoundRect = r\<rparr> (js ''Hi'')
       \<noteq> 2 * bubbleHeight \<lparr>width = 320, height = h, measureText = m, hasRoundRect = r\<rparr>
              (js ''Hi'')"
proof (intro allI)
  fix m h r
  have t: "trim (js ''Hi'') \<noteq> []"
    by (simp add: trim_def js_def isWhiteSpace_def)
  have s: "SPACE \<notin> set (js ''Hi'')"
    by (simp add: js_def SPACE_def)
  have f: "fontSize (js ''Hi'') = 38"
    by (simp add: fontSize_def js_def)
  have l: "\<And>c. bubbleLines c (js ''Hi'') = [js ''Hi'']"
    using s by (rule bubbleLines_single)
  have h: "\<And>c. bubbleHeight c (js ''Hi'') = 41.8 + PADDING c * 2"
    by (simp add: bubbleHeight_def l lineHeight_def f)
  have d: "\<And>c. hd (drawBubble c (js ''Hi'') TopLeft Rounded (Some 5) (Some 5)) = SetFont 38"
    by (simp add: drawBubble_nonblank [OF t] f)
  show "SCALE \<lparr>width = 320, height = h, measureText = m, hasRoundRect = r\<rparr> = 1 \<and>
     SCALE \<lparr>width = 640, height = h, measureText = m, hasRoundRect = r\<rparr> = 2 \<and>
     PADDING \<lparr>width = 320, height = h, measureText = m, hasRoundRect = r\<rparr> = 8 \<and>
     PADDING \<lparr>width = 640, height = h, measureText = m, hasRoundRect = r\<rparr> = 2 * 8 \<and>
     hd (drawBubble \<lparr>width = 320, height = h, measureText = m, hasRoundRect = r\<rparr>
          (js ''Hi'') TopLeft Rounded (Some 5) (Some 5)) = SetFont 38 \<and>
     hd (drawBubble \<lparr>width = 640, height = h, measureText = m, hasRoundRect = r\<rparr>
          (js ''Hi'') TopLeft Rounded (Some 5) (Some 5)) = SetFont 38 \<and>
     bubbleHeight \<lparr>width = 320, height = h, measureText = m, hasRoundRect = r\<rparr> (js ''Hi'')
       = 57.8 \<and>
     bubbleHeight \<lparr>width = 640, height = h, measureText = m, hasRoundRect = r\<rparr> (js ''Hi'')
       = 73.8 \<and>
     bubbleHeight \<lparr>width = 640, height = h, measureText = m, hasRoundRect = r\<rparr> (js ''Hi'')
       \<noteq> 2 * bubbleHeight \<lparr>width = 320, height = h, measureText = m, hasRoundRect = r\<rparr>
              (js ''Hi'')"
    by (simp add: h d PADDING_def SCALE_def)
qed


section \<open>Font tiers\<close>

text \<open>
  Claim C3 (font tiering boundaries). The tier is chosen from the length of the raw text:
  below 20 the largest (38 px on the canvas, \<open>text-xs\<close> in the overlay), below 50 the
  medium one (32 px, \<open>text-[10px]\<close>), else the smallest (29 px, \<open>text-[9px]\<close>), by the
  same thresholds in \<open>drawBubble\<close> and in \<open>getFontSizeClass\<close>; and the font that
  \<open>drawBubble\<close> sets before it measures and draws is the one of the tier.
\<close>
theorem font_tiering:
  "(length text < 20 \<longrightarrow>
      fontSize text = 38 \<and> getFontSizeClass text = [''text-xs'']) \<and>
   (20 \<le> length text \<and> length text < 50 \<longrightarrow>
      fontSize text = 32 \<and> getFontSizeClass text = [''text-[10px]'']) \<and>
   (50 \<le> length text \<longrightarrow>
      fontSize text = 29 \<and> getFontSizeClass text = [''text-[9px]'']) \<and>
   (trim text \<noteq> [] \<longrightarrow>
      hd (drawBubble c text pos shape posX posY) = SetFont \<lfloor>fontSize text\<rfloor>)"
  by (simp add: fontSize_def getFontSizeClass_def Let_def drawBubble_nonblank)

text \<open>The theorem at texts of length 19, 20, 49 and 50.\<close>

theorem font_tiering_witness:
  "(fontSize (replicate 19 0x61) = 38 \<and> getFontSizeClass (replicate 19 0x61) = [''text-xs'']) \<and>
   (fontSize (replicate 20 0x61) = 32 \<and> getFontSizeClass (replicate 20 0x61) = [''text-[10px]'']) \<and>
   (fontSize (replicate 49 0x61) = 32 \<and> getFontSizeClass (replicate 49 0x61) = [''text-[10px]'']) \<and>
   (fontSize (replicate 50 0x61) = 29 \<and> getFontSizeClass (replicate 50 0x61) = [''text-[9px]''])"
proof -
  have a: "length (replicate 19 (0x61 :: 16 word)) < 20" by simp
  have b: "20 \<le> length (replicate 20 (0x61 :: 16 word)) \<and> length (replicate 20 (0x61 :: 16 word)) < 50"
    by simp
  have d: "20 \<le> length (replicate 49 (0x61 :: 16 word)) \<and> length (replicate 49 (0x61 :: 16 word)) < 50"
    by simp
  have e: "50 \<le> length (replicate 50 (0x61 :: 16 word))" by simp
  note t19 = font_tiering [of "replicate 19 0x61", THEN conjunct1, THEN mp, OF a]
  note t20 = font_tiering [of "replicate 20 0x61", THEN conjunct2, THEN conjunct1, THEN mp, OF b]
  note t49 = font_tiering [of "replicate 49 0x61", THEN conjunct2, THEN conjunct1, THEN mp, OF d]
  note t50 = font_tiering [of "replicate 50 0x61", THEN conjunct2, THEN conjunct2, THEN conjunct1, THEN mp, OF e]
  show ?thesis
    by (rule conjI [OF t19 conjI [OF t20 conjI [OF t49 t50]]])
qed


section \<open>Texts of white space\<close>

text \<open>
  The compositor draws nothing for a text that is empty or all white space, and the
  overlay has no bubble for an empty text.
\<close>

lemma drawBubble_whitespace:
  "\<forall>u \<in> set text. isWhiteSpace u \<Longrightarrow> drawBubble c text pos shape posX posY = []"
  by (simp add: drawBubble_blank trim_Nil_iff)

lemma generateDownloadableImage_whitespace:
  assumes "\<forall>u \<in> set (char1Dialogue panel). isWhiteSpace u"
    and "\<forall>u \<in> set (char2Dialogue panel). isWhiteSpace u"
    and "generateDownloadableImage c panel = Some ops"
  shows "ops = [DrawImage, SetFont \<lfloor>14 * SCALE c\<rfloor>,
           FillText (js ''@tipmarketolog'')
             (real (width c) - (10 * SCALE c)) (real (height c) - (10 * SCALE c))]"
  using assms
  by (auto simp: generateDownloadableImage_def drawBubble_whitespace split: if_splits)

lemma ComicPanel_empty_text:
  "char1Dialogue panel = [] \<Longrightarrow> char2Dialogue panel = [] \<Longrightarrow> ComicPanel panel = []"
  by (simp add: ComicPanel_def char1Bubble_def char2Bubble_def)

text \<open>
  Claim C4 (empty-text skip). \<open>drawBubble\<close> returns at once when the trimmed text is
  empty, but \<open>ComicPanel\<close> only tests the text itself, which a string of spaces passes.
  For a panel whose first dialogue is one space: the compositor draws the image and the
  watermark only, and the overlay has a bubble element for the space.
\<close>

theorem whitespace_bubble_in_ComicPanel:
  "\<forall>c.
     trim (js '' '') = [] \<and>
     generateDownloadableImage c
       \<lparr>panelId = ''p'', index = 0,
        char1Dialogue = js '' '', char1BubblePos = Some TopLeft,
        char1BubbleShape = Some Rounded, char1BubbleX = Some 5, char1BubbleY = Some 5,
        char2Dialogue = [], char2BubblePos = Some TopRight,
        char2BubbleShape = Some Rounded, char2BubbleX = Some 55, char2BubbleY = Some 5,
        imageUrl = Some ''u'', isLoading = False\<rparr>
     = Some [DrawImage, SetFont \<lfloor>14 * SCALE c\<rfloor>,
             FillText (js ''@tipmarketolog'')
               (real (width c) - (10 * SCALE c)) (real (height c) - (10 * SCALE c))] \<and>
     ComicPanel
       \<lparr>panelId = ''p'', index = 0,
        char1Dialogue = js '' '', char1BubblePos = Some TopLeft,
        char1BubbleShape = Some Rounded, char1BubbleX = Some 5, char1BubbleY = Some 5,
        char2Dialogue = [], char2BubblePos = Some TopRight,
        char2BubbleShape = Some Rounded, char2BubbleX = Some 55, char2BubbleY = Some 5,
        imageUrl = Some ''u'', isLoading = False\<rparr>
     = [\<lparr>leftPct = 5, topPct = 5, fontSizeClass = [''text-xs''],
         shapeClass = [''rounded-xl''], content = js '' '',
         tailClass = [''absolute'', ''-bottom-2'', ''left-4'', ''w-2.5'', ''h-2.5'',
                      ''bg-white'', ''border-b'', ''border-r'', ''border-black'',
                      ''transform'', ''rotate-45''],
         tailCoverClass = [''absolute'', ''bottom-0'', ''left-4'', ''w-4'', ''h-1.5'',
                           ''bg-white''],
         thoughtTail = None\<rparr>]"
proof (intro allI conjI)
  show t: "trim (js '' '') = []"
    by (simp add: trim_def js_def isWhiteSpace_def)
  fix c
  show "generateDownloadableImage c
       \<lparr>panelId = ''p'', index = 0,
        char1Dialogue = js '' '', char1BubblePos = Some TopLeft,
        char1BubbleShape = Some Rounded, char1BubbleX = Some 5, char1BubbleY = Some 5,
        char2Dialogue = [], char2BubblePos = Some TopRight,
        char2BubbleShape = Some Rounded, char2BubbleX = Some 55, char2BubbleY = Some 5,
        imageUrl = Some ''u'', isLoading = False\<rparr>
     = Some [DrawImage, SetFont \<lfloor>14 * SCALE c\<rfloor>,
             FillText (js ''@tipmarketolog'')
               (real (width c) - (10 * SCALE c)) (real (height c) - (10 * SCALE c))]"
    by (simp add: generateDownloadableImage_def drawBubble_blank [OF t])
next
  show "ComicPanel
       \<lparr>panelId = ''p'', index = 0,
        char1Dialogue = js '' '', char1BubblePos = Some TopLeft,
        char1BubbleShape = Some Rounded, char1BubbleX = Some 5, char1BubbleY = Some 5,
        char2Dialogue = [], char2BubblePos = Some TopRight,
        char2BubbleShape = Some Rounded, char2BubbleX = Some 55, char2BubbleY = Some 5,
        imageUrl = Some ''u'', isLoading = False\<rparr>
     = [\<lparr>leftPct = 5, topPct = 5, fontSizeClass = [''text-xs''],
         shapeClass = [''rounded-xl''], content = js '' '',
         tailClass = [''absolute'', ''-bottom-2'', ''left-4'', ''w-2.5'', ''h-2.5'',
                      ''bg-white'', ''border-b'', ''border-r'', ''border-black'',
                      ''transform'', ''rotate-45''],
         tailCoverClass = [''absolute'', ''bottom-0'', ''left-4'', ''w-4'', ''h-1.5'',
                           ''bg-white''],
         thoughtTail = None\<rparr>]"
    by (simp add: ComicPanel_def char1Bubble_def char2Bubble_def getFontSizeClass_def
        getTailClass_def getTailCoverClass_def pos_includes_top pos_includes_left js_def)
qed

section \<open>The box of a bubble\<close>

text \<open>
  The loop over the lines keeps the largest measured width, starting from 0.
\<close>

lemma foldl_widest:
  "foldl (\<lambda>a l. let w = f l in if w > a then w else a) a0 ls = Max (insert a0 (f ` set ls))"
proof (induction ls arbitrary: a0)
  case Nil
  show ?case by simp
next
  case (Cons l ls)
  have "Max (insert (max a0 (f l)) (f ` set ls)) = Max (insert a0 (insert (f l) (f ` set ls)))"
    by (cases "f ` set ls = {}") (simp_all add: max.assoc)
  moreover have "(if a0 < f l then f l else a0) = max a0 (f l)"
    by (auto simp: max_def)
  ultimately show ?case
    using Cons [of "max a0 (f l)"] by (simp add: Let_def)
qed

lemma bubbleLines_not_Nil: "bubbleLines c text \<noteq> []"
  by (simp add: bubbleLines_def getLines_def Let_def getLines_loop_not_Nil)

lemma textBlockWidth_Max:
  assumes "\<forall>s. 0 \<le> measureText c \<lfloor>fontSize text\<rfloor> s"
  shows "textBlockWidth c text = Max (measureText c \<lfloor>fontSize text\<rfloor> ` set (bubbleLines c text))"
proof -
  let ?W = "measureText c \<lfloor>fontSize text\<rfloor> ` set (bubbleLines c text)"
  have fin: "finite ?W" and ne: "?W \<noteq> {}"
    by (simp_all add: bubbleLines_not_Nil)
  have "textBlockWidth c text = Max (insert 0 ?W)"
    unfolding textBlockWidth_def by (rule foldl_widest)
  also have "\<dots> = max 0 (Max ?W)"
    using fin ne by simp
  also have "max 0 (Max ?W) = Max ?W"
  proof (rule max_absorb2)
    from bubbleLines_not_Nil [of c "text"] obtain l where l: "l \<in> set (bubbleLines c text)"
      by (cases "bubbleLines c text") auto
    from assms have "0 \<le> measureText c \<lfloor>fontSize text\<rfloor> l" ..
    also from l have "measureText c \<lfloor>fontSize text\<rfloor> l \<le> Max ?W"
      by (intro Max_ge) simp_all
    finally show "0 \<le> Max ?W" .
  qed
  finally show ?thesis .
qed

lemma filter_isBox_drawBubble:
  "trim text \<noteq> [] \<Longrightarrow>
   filter isBox (drawBubble c text pos shape posX posY) =
     [if hasRoundRect c
      then RoundRect (fst (bubbleXY c posX posY)) (snd (bubbleXY c posX posY))
             (bubbleWidth c text) (bubbleHeight c text) (radius c shape) (shape = Thought)
      else Rect (fst (bubbleXY c posX posY)) (snd (bubbleXY c posX posY))
             (bubbleWidth c text) (bubbleHeight c text) (shape = Thought)]"
  by (simp add: drawBubble_nonblank filter_drawText drawDots_def drawTail_def Let_def)

text \<open>
  Claim C5 (bubble box and position). For a text that is not skipped, measured by a
  function that gives no negative width, the box that is drawn has its top left corner
  at \<open>canvasWidth * xPct / 100\<close>, \<open>canvasHeight * yPct / 100\<close> when both percentages are
  given, the width \<open>max (longest line + 2 * padding) minimum\<close>, and the height
  \<open>lines * lineHeight + 2 * padding\<close> with \<open>lineHeight = fontSize * 1.1\<close>.
\<close>

theorem bubble_box_and_position:
  assumes "trim text \<noteq> []"
    and "\<forall>s. 0 \<le> measureText c \<lfloor>fontSize text\<rfloor> s"
  shows "filter isBox (drawBubble c text pos shape (Some px) (Some py)) =
     [if hasRoundRect c
      then RoundRect (real (width c) * px / 100) (real (height c) * py / 100)
             (max (Max (measureText c \<lfloor>fontSize text\<rfloor> ` set (bubbleLines c text))
                     + 2 * PADDING c) (MIN_WIDTH c))
             (real (length (bubbleLines c text)) * (fontSize text * 1.1) + 2 * PADDING c)
             (radius c shape) (shape = Thought)
      else Rect (real (width c) * px / 100) (real (height c) * py / 100)
             (max (Max (measureText c \<lfloor>fontSize text\<rfloor> ` set (bubbleLines c text))
                     + 2 * PADDING c) (MIN_WIDTH c))
             (real (length (bubbleLines c text)) * (fontSize text * 1.1) + 2 * PADDING c)
             (shape = Thought)]"
  by (simp add: filter_isBox_drawBubble [OF assms(1)] bubbleXY_def bubbleWidth_def
      bubbleHeight_def lineHeight_def textBlockWidth_Max [OF assms(2)])

text \<open>
  The theorem on a canvas of 1024 by 1024 where a character is half the font size wide,
  for the text \<open>Hello there, friend!\<close> at 5 %, 5 %: two lines, a box of 243.2 by 121.6
  at (51.2, 51.2).
\<close>

theorem bubble_box_and_position_witness:
  "trim (js ''Hello there, friend!'') \<noteq> [] \<and>
   (\<forall>s. 0 \<le> real (length s) * real_of_int \<lfloor>fontSize (js ''Hello there, friend!'')\<rfloor> / 2) \<and>
   filter isBox
     (drawBubble
        \<lparr>width = 1024, height = 1024,
         measureText = \<lambda>f s. real (length s) * real_of_int f / 2, hasRoundRect = True\<rparr>
        (js ''Hello there, friend!'') TopLeft Rounded (Some 5) (Some 5))
   = [RoundRect 51.2 51.2 243.2 121.6 38.4 False]"
proof -
  let ?c = "\<lparr>width = 1024, height = 1024,
         measureText = \<lambda>f s. real (length s) * real_of_int f / 2, hasRoundRect = True\<rparr>"
  let ?t = "js ''Hello there, friend!''"
  have f: "fontSize ?t = 32"
    by (simp add: fontSize_def js_def)
  have h1: "trim ?t \<noteq> []"
    by (simp add: trim_def js_def isWhiteSpace_def)
  have h2: "\<forall>s. 0 \<le> measureText ?c \<lfloor>fontSize ?t\<rfloor> s"
    by (simp add: f)
  have l: "bubbleLines ?c ?t = [js ''Hello there,'', js ''friend!'']"
    unfolding bubbleLines_def f
    by (simp add: getLines_def maxBubbleWidth_def PADDING_def SCALE_def js_def SPACE_def)
  have b: "filter isBox (drawBubble ?c ?t TopLeft Rounded (Some 5) (Some 5))
           = [RoundRect 51.2 51.2 243.2 121.6 38.4 False]"
    using bubble_box_and_position [OF h1 h2, of TopLeft Rounded 5 5]
    unfolding l f
    by (simp add: PADDING_def MIN_WIDTH_def SCALE_def radius_def RADIUS_XL_def js_def)
  have h2': "\<forall>s. 0 \<le> real (length s) * real_of_int \<lfloor>fontSize ?t\<rfloor> / 2"
    unfolding f by simp
  show ?thesis
    by (rule conjI [OF h1 conjI [OF h2' b]])
qed

section \<open>Thought bubbles\<close>

text \<open>
  A position holds \<open>bottom\<close> exactly when it does not hold \<open>top\<close>, and \<open>right\<close> exactly
  when it does not hold \<open>left\<close>.
\<close>

lemma pos_includes_bottom_top: "pos_includes p ''bottom'' \<longleftrightarrow> \<not> pos_includes p ''top''"
  by (cases p) (simp_all add: pos_includes_def)

lemma pos_includes_right_left: "pos_includes p ''right'' \<longleftrightarrow> \<not> pos_includes p ''left''"
  by (cases p) (simp_all add: pos_includes_def)

lemma drawDots_arcs:
  "drawDots c pos x y W H =
     [Arc (if pos_includes pos ''left'' then x + 20 * SCALE c else x + W - 20 * SCALE c)
          (if pos_includes pos ''top'' then y + H + 7.5 * SCALE c else y - 7.5 * SCALE c)
          (3.2 * SCALE c),
      Arc (if pos_includes pos ''left''
           then (if pos_includes pos ''left'' then x + 20 * SCALE c else x + W - 20 * SCALE c)
                - 5 * SCALE c
           else (if pos_includes pos ''left'' then x + 20 * SCALE c else x + W - 20 * SCALE c)
                + 5 * SCALE c)
          (if pos_includes pos ''top'' then y + H + 15 * SCALE c else y - 15 * SCALE c)
          (1.6 * SCALE c)]"
  by (simp add: drawDots_def Let_def pos_includes_bottom_top pos_includes_right_left)

lemma drawBubble_thought_shapes:
  assumes "trim text \<noteq> []"
  shows "filter isTriangle (drawBubble c text pos Thought posX posY) = []"
    and "filter isFillRect (drawBubble c text pos Thought posX posY) = []"
    and "filter isArc (drawBubble c text pos Thought posX posY) =
           drawDots c pos (fst (bubbleXY c posX posY)) (snd (bubbleXY c posX posY))
             (bubbleWidth c text) (bubbleHeight c text)"
  by (simp_all add: drawBubble_nonblank [OF assms] filter_drawText drawDots_def Let_def)

lemma thought_overlay:
  "getTailClass ipos (Some Thought) isChar1 = [''hidden'']"
  "getTailCoverClass ipos (Some Thought) isChar1 = [''hidden'']"
  "take 2 (largeDotClass (renderThoughtTail ipos isChar1)) = [''w-2'', ''h-2'']"
  "take 2 (smallDotClass (renderThoughtTail ipos isChar1)) = [''w-1'', ''h-1'']"
  by (simp_all add: getTailClass_def getTailCoverClass_def renderThoughtTail_def Let_def)

lemma thought_overlay_side:
  "(if pos_includes (case ipos of None \<Rightarrow> (if isChar1 then TopLeft else TopRight) | Some q \<Rightarrow> q) ''top''
    then ''-bottom-5'' \<in> set (containerClass (renderThoughtTail ipos isChar1)) \<and>
         ''-top-5'' \<notin> set (containerClass (renderThoughtTail ipos isChar1)) \<and>
         ''order-last'' \<notin> set (largeDotClass (renderThoughtTail ipos isChar1))
    else ''-top-5'' \<in> set (containerClass (renderThoughtTail ipos isChar1)) \<and>
         ''-bottom-5'' \<notin> set (containerClass (renderThoughtTail ipos isChar1)) \<and>
         ''order-last'' \<in> set (largeDotClass (renderThoughtTail ipos isChar1)))"
  by (simp add: renderThoughtTail_def Let_def)

lemma thought_elements:
  "map tailClass (char1Bubble (panel\<lparr>char1BubbleShape := Some Thought\<rparr>)) =
     (if char1Dialogue panel = [] then [] else [[''hidden'']])"
  "map thoughtTail (char1Bubble (panel\<lparr>char1BubbleShape := Some Thought\<rparr>)) =
     (if char1Dialogue panel = [] then []
      else [Some (renderThoughtTail (char1BubblePos panel) True)])"
  "map tailClass (char2Bubble (panel\<lparr>char2BubbleShape := Some Thought\<rparr>)) =
     (if char2Dialogue panel = [] then [] else [[''hidden'']])"
  "map thoughtTail (char2Bubble (panel\<lparr>char2BubbleShape := Some Thought\<rparr>)) =
     (if char2Dialogue panel = [] then []
      else [Some (renderThoughtTail (char2BubblePos panel) False)])"
  by (simp_all add: char1Bubble_def char2Bubble_def thought_overlay)

text \<open>
  Claim C6 (thought suppression). For a thought bubble with a text that is not skipped,
  on a canvas of positive width, the compositor draws no triangle and no cover, and two
  dots: a large one of radius \<open>3.2 * SCALE\<close> and a small one of radius \<open>1.6 * SCALE\<close>.
  When the position holds \<open>top\<close>, the large dot lies wholly below the bubble's bottom edge
  and the small dot wholly below the large one; otherwise (the position holds \<open>bottom\<close>) the
  large dot lies wholly above the top edge and the small dot wholly above the large one.
  In the overlay the tail and its cover get the class \<open>hidden\<close>, and the bubble gets the
  element of \<open>renderThoughtTail\<close>: a dot of \<open>w-2 h-2\<close> and one of \<open>w-1 h-1\<close> in a column
  that hangs below the box (\<open>-bottom-5\<close>) with the large dot first for \<open>top\<close>, and stands
  above the box (\<open>-top-5\<close>) with the large dot moved last (\<open>order-last\<close>) for \<open>bottom\<close>,
  so that the large dot is the one next to the bubble.
\<close>

theorem thought_suppression:
  fixes c :: canvas and "text" :: jsstring and pos :: BubblePosition
    and posX posY :: "real option" and panel :: PanelData
  defines "x \<equiv> fst (bubbleXY c posX posY)" and "y \<equiv> snd (bubbleXY c posX posY)"
    and "W \<equiv> bubbleWidth c text" and "H \<equiv> bubbleHeight c text" and "S \<equiv> SCALE c"
  defines "lx \<equiv> (if pos_includes pos ''left'' then x + 20 * S else x + W - 20 * S)"
    and "ly \<equiv> (if pos_includes pos ''top'' then y + H + 7.5 * S else y - 7.5 * S)"
    and "sy \<equiv> (if pos_includes pos ''top'' then y + H + 15 * S else y - 15 * S)"
  defines "sx \<equiv> (if pos_includes pos ''left'' then lx - 5 * S else lx + 5 * S)"
  assumes nonblank: "trim text \<noteq> []" and wide: "0 < width c"
  shows "filter isTriangle (drawBubble c text pos Thought posX posY) = [] \<and>
    filter isFillRect (drawBubble c text pos Thought posX posY) = [] \<and>
    filter isArc (drawBubble c text pos Thought posX posY) =
      [Arc lx ly (3.2 * S), Arc sx sy (1.6 * S)] \<and>
    0 < 1.6 * S \<and> 1.6 * S < 3.2 * S \<and>
    (if pos_includes pos ''top''
     then y + H < ly - 3.2 * S \<and> ly + 3.2 * S < sy - 1.6 * S
     else sy + 1.6 * S < ly - 3.2 * S \<and> ly + 3.2 * S < y) \<and>
    pos_includes pos ''bottom'' = (\<not> pos_includes pos ''top'') \<and>
    getTailClass ipos (Some Thought) isChar1 = [''hidden''] \<and>
    getTailCoverClass ipos (Some Thought) isChar1 = [''hidden''] \<and>
    take 2 (largeDotClass (renderThoughtTail ipos isChar1)) = [''w-2'', ''h-2''] \<and>
    take 2 (smallDotClass (renderThoughtTail ipos isChar1)) = [''w-1'', ''h-1''] \<and>
    (if pos_includes
          (case ipos of None \<Rightarrow> (if isChar1 then TopLeft else TopRight) | Some q \<Rightarrow> q) ''top''
     then ''-bottom-5'' \<in> set (containerClass (renderThoughtTail ipos isChar1)) \<and>
          ''-top-5'' \<notin> set (containerClass (renderThoughtTail ipos isChar1)) \<and>
          ''order-last'' \<notin> set (largeDotClass (renderThoughtTail ipos isChar1))
     else ''-top-5'' \<in> set (containerClass (renderThoughtTail ipos isChar1)) \<and>
          ''-bottom-5'' \<notin> set (containerClass (renderThoughtTail ipos isChar1)) \<and>
          ''order-last'' \<in> set (largeDotClass (renderThoughtTail ipos isChar1))) \<and>
    map tailClass (char1Bubble (panel\<lparr>char1BubbleShape := Some Thought\<rparr>)) =
      (if char1Dialogue panel = [] then [] else [[''hidden'']]) \<and>
    map thoughtTail (char1Bubble (panel\<lparr>char1BubbleShape := Some Thought\<rparr>)) =
      (if char1Dialogue panel = [] then []
       else [Some (renderThoughtTail (char1BubblePos panel) True)]) \<and>
    map tailClass (char2Bubble (panel\<lparr>char2BubbleShape := Some Thought\<rparr>)) =
      (if char2Dialogue panel = [] then [] else [[''hidden'']]) \<and>
    map thoughtTail (char2Bubble (panel\<lparr>char2BubbleShape := Some Thought\<rparr>)) =
      (if char2Dialogue panel = [] then []
       else [Some (renderThoughtTail (char2BubblePos panel) False)])"
proof -
  have S: "0 < S"
    unfolding S_def using wide by (rule SCALE_pos)
  have arcs: "filter isArc (drawBubble c text pos Thought posX posY) =
      [Arc lx ly (3.2 * S), Arc sx sy (1.6 * S)]"
    unfolding drawBubble_thought_shapes(3) [OF nonblank] drawDots_arcs
    by (simp add: x_def y_def W_def H_def S_def lx_def ly_def sx_def sy_def)
  have geo: "(if pos_includes pos ''top''
     then y + H < ly - 3.2 * S \<and> ly + 3.2 * S < sy - 1.6 * S
     else sy + 1.6 * S < ly - 3.2 * S \<and> ly + 3.2 * S < y)"
    using S by (simp add: ly_def sy_def)
  from S have sm: "0 < 1.6 * S" "1.6 * S < 3.2 * S"
    by simp_all
  show ?thesis
    using arcs geo sm drawBubble_thought_shapes(1,2) [OF nonblank]
      pos_includes_bottom_top [of pos] thought_overlay
      thought_overlay_side thought_elements
    by (intro conjI) assumption+
qed



text \<open>
  The theorem on a canvas 320 wide, for the text \<open>Hmm\<close> at the top left: a bubble of
  73 by 57.8 at (16, 16), and the dots below it.
\<close>

theorem thought_suppression_witness:
  "trim (js ''Hmm'') \<noteq> [] \<and>
   0 < width \<lparr>width = 320, height = 320,
         measureText = \<lambda>f s. real (length s) * real_of_int f / 2, hasRoundRect = True\<rparr> \<and>
   filter isArc
     (drawBubble
        \<lparr>width = 320, height = 320,
         measureText = \<lambda>f s. real (length s) * real_of_int f / 2, hasRoundRect = True\<rparr>
        (js ''Hmm'') TopLeft Thought (Some 5) (Some 5))
   = [Arc 36 81.3 3.2, Arc 31 88.8 1.6] \<and>
   filter isTriangle
     (drawBubble
        \<lparr>width = 320, height = 320,
         measureText = \<lambda>f s. real (length s) * real_of_int f / 2, hasRoundRect = True\<rparr>
        (js ''Hmm'') TopLeft Thought (Some 5) (Some 5))
   = []"
proof -
  let ?c = "\<lparr>width = 320, height = 320,
         measureText = \<lambda>f s. real (length s) * real_of_int f / 2, hasRoundRect = True\<rparr>"
  let ?t = "js ''Hmm''"
  have f: "fontSize ?t = 38"
    by (simp add: fontSize_def js_def)
  have h1: "trim ?t \<noteq> []"
    by (simp add: trim_def js_def isWhiteSpace_def)
  have h2: "0 < width ?c"
    by simp
  have l: "bubbleLines ?c ?t = [?t]"
    by (rule bubbleLines_single) (simp add: js_def SPACE_def)
  have w: "bubbleWidth ?c ?t = 73"
    unfolding bubbleWidth_def textBlockWidth_def l f
    by (simp add: PADDING_def MIN_WIDTH_def SCALE_def js_def)
  have h: "bubbleHeight ?c ?t = 57.8"
    unfolding bubbleHeight_def l lineHeight_def f
    by (simp add: PADDING_def SCALE_def)
  note t = thought_suppression [OF h1 h2, where pos = TopLeft and posX = "Some 5" and posY = "Some 5"]
  have a: "filter isArc (drawBubble ?c ?t TopLeft Thought (Some 5) (Some 5))
           = [Arc 36 81.3 3.2, Arc 31 88.8 1.6]"
    using t [THEN conjunct2, THEN conjunct2, THEN conjunct1]
    unfolding w h
    by (simp add: bubbleXY_def SCALE_def pos_includes_top pos_includes_left)
  note b = t [THEN conjunct1]
  show ?thesis
    by (rule conjI [OF h1 conjI [OF h2 conjI [OF a b]]])
qed

section \<open>Triangular tails\<close>

text \<open>What the branch for the other shapes draws, with the two cases of the edge merged.\<close>

lemma drawTail_shapes:
  "drawTail c pos x y W H =
     [Triangle (baseX1 c pos x W, if pos_includes pos ''bottom'' then y else y + H)
        (if pos_includes pos ''left'' then baseX1 c pos x W else baseX2 c pos x W,
         if pos_includes pos ''bottom'' then y - tailHeight c else y + H + tailHeight c)
        (baseX2 c pos x W, if pos_includes pos ''bottom'' then y else y + H),
      FillRect (baseX1 c pos x W + borderWidth c)
        ((if pos_includes pos ''bottom'' then y else y + H) - borderWidth c)
        (tailSize c - 2 * borderWidth c) (2 * borderWidth c)]"
  by (simp add: drawTail_def Let_def baseX1_def)

lemma drawBubble_tail_shapes:
  assumes "trim text \<noteq> []" and "shape \<noteq> Thought"
  shows "filter isArc (drawBubble c text pos shape posX posY) = []"
    and "filter isTriangle (drawBubble c text pos shape posX posY) =
           [hd (drawTail c pos (fst (bubbleXY c posX posY)) (snd (bubbleXY c posX posY))
                  (bubbleWidth c text) (bubbleHeight c text))]"
    and "filter isFillRect (drawBubble c text pos shape posX posY) =
           tl (drawTail c pos (fst (bubbleXY c posX posY)) (snd (bubbleXY c posX posY))
                 (bubbleWidth c text) (bubbleHeight c text))"
  using assms(2)
  by (simp_all add: drawBubble_nonblank [OF assms(1)] filter_drawText drawTail_shapes)

text \<open>
  Claim C7 (tail-base symmetry). For a shape other than a thought bubble and one bubble
  box, the base of the tail is \<open>[x + offset, x + offset + tailSize]\<close> for a position that
  holds \<open>left\<close> and \<open>[x + width - offset - tailSize, x + width - offset]\<close> for one that
  holds \<open>right\<close>, and each end of the one is the mirror image of the other end of the
  other about the horizontal centre \<open>x + width / 2\<close> of the bubble.
\<close>

theorem tail_base_mirror:
  fixes c :: canvas and "text" :: jsstring and pl pr :: BubblePosition
    and shape :: BubbleShape and posX posY :: "real option"
  defines "x \<equiv> fst (bubbleXY c posX posY)" and "y \<equiv> snd (bubbleXY c posX posY)"
    and "W \<equiv> bubbleWidth c text" and "H \<equiv> bubbleHeight c text"
  defines "centre \<equiv> x + W / 2"
    and "yl \<equiv> (if pos_includes pl ''bottom'' then y else y + H)"
    and "yr \<equiv> (if pos_includes pr ''bottom'' then y else y + H)"
    and "tipl \<equiv> (if pos_includes pl ''bottom'' then y - tailHeight c else y + H + tailHeight c)"
    and "tipr \<equiv> (if pos_includes pr ''bottom'' then y - tailHeight c else y + H + tailHeight c)"
  defines "l1 \<equiv> x + tailOffset c" and "l2 \<equiv> x + tailOffset c + tailSize c"
    and "r1 \<equiv> x + W - tailOffset c - tailSize c" and "r2 \<equiv> x + W - tailOffset c"
  assumes nonblank: "trim text \<noteq> []" and tailed: "shape \<noteq> Thought"
    and left: "pos_includes pl ''left''" and right: "pos_includes pr ''right''"
  shows "filter isTriangle (drawBubble c text pl shape posX posY) =
           [Triangle (l1, yl) (l1, tipl) (l2, yl)] \<and>
         filter isTriangle (drawBubble c text pr shape posX posY) =
           [Triangle (r1, yr) (r2, tipr) (r2, yr)] \<and>
         r1 = 2 * centre - l2 \<and> r2 = 2 * centre - l1"
proof -
  from right have nl: "\<not> pos_includes pr ''left''"
    by (simp add: pos_includes_right_left)
  have "filter isTriangle (drawBubble c text pl shape posX posY) =
           [Triangle (l1, yl) (l1, tipl) (l2, yl)]"
    unfolding drawBubble_tail_shapes(2) [OF nonblank tailed] drawTail_shapes
    using left
    by (simp add: baseX1_def baseX2_def x_def y_def W_def H_def l1_def l2_def yl_def tipl_def)
  moreover have "filter isTriangle (drawBubble c text pr shape posX posY) =
           [Triangle (r1, yr) (r2, tipr) (r2, yr)]"
    unfolding drawBubble_tail_shapes(2) [OF nonblank tailed] drawTail_shapes
    using nl
    by (simp add: baseX1_def baseX2_def x_def y_def W_def H_def r1_def r2_def yr_def tipr_def)
  moreover have "r1 = 2 * centre - l2" and "r2 = 2 * centre - l1"
    by (simp_all add: r1_def r2_def l1_def l2_def centre_def)
  ultimately show ?thesis by (intro conjI)
qed

text \<open>
  The theorem on a canvas 320 wide, for the text \<open>Hi\<close> at the top left and the top right:
  the bases are \<open>[32, 42]\<close> and \<open>[50, 60]\<close> about the centre 46.
\<close>

theorem tail_base_mirror_witness:
  "trim (js ''Hi'') \<noteq> [] \<and> Rounded \<noteq> Thought \<and>
   pos_includes TopLeft ''left'' \<and> pos_includes TopRight ''right'' \<and>
   filter isTriangle
     (drawBubble
        \<lparr>width = 320, height = 320,
         measureText = \<lambda>f s. real (length s) * real_of_int f / 2, hasRoundRect = True\<rparr>
        (js ''Hi'') TopLeft Rounded (Some 5) (Some 5))
   = [Triangle (32, 73.8) (32, 81.8) (42, 73.8)] \<and>
   filter isTriangle
     (drawBubble
        \<lparr>width = 320, height = 320,
         measureText = \<lambda>f s. real (length s) * real_of_int f / 2, hasRoundRect = True\<rparr>
        (js ''Hi'') TopRight Rounded (Some 5) (Some 5))
   = [Triangle (50, 73.8) (60, 81.8) (60, 73.8)] \<and>
   (50 :: real) = 2 * (16 + 60 / 2) - 42 \<and> (60 :: real) = 2 * (16 + 60 / 2) - 32"
proof -
  let ?c = "\<lparr>width = 320, height = 320,
         measureText = \<lambda>f s. real (length s) * real_of_int f / 2, hasRoundRect = True\<rparr>"
  let ?t = "js ''Hi''"
  have f: "fontSize ?t = 38"
    by (simp add: fontSize_def js_def)
  have h1: "trim ?t \<noteq> []"
    by (simp add: trim_def js_def isWhiteSpace_def)
  have h2: "Rounded \<noteq> Thought"
    by simp
  have h3: "pos_includes TopLeft ''left''"
    by (simp add: pos_includes_left)
  have h4: "pos_includes TopRight ''right''"
    by (simp add: pos_includes_right)
  have l: "bubbleLines ?c ?t = [?t]"
    by (rule bubbleLines_single) (simp add: js_def SPACE_def)
  have w: "bubbleWidth ?c ?t = 60"
    unfolding bubbleWidth_def textBlockWidth_def l f
    by (simp add: PADDING_def MIN_WIDTH_def SCALE_def js_def)
  have h: "bubbleHeight ?c ?t = 57.8"
    unfolding bubbleHeight_def l lineHeight_def f
    by (simp add: PADDING_def SCALE_def)
  have xy: "bubbleXY ?c (Some 5) (Some 5) = (16, 16)"
    by (simp add: bubbleXY_def)
  note t = tail_base_mirror [OF h1 h2 h3 h4, where c = ?c and posX = "Some 5" and posY = "Some 5"]
  have a: "filter isTriangle (drawBubble ?c ?t TopLeft Rounded (Some 5) (Some 5))
           = [Triangle (32, 73.8) (32, 81.8) (42, 73.8)]"
    using t [THEN conjunct1]
    unfolding w h xy
    by (simp add: SCALE_def pos_includes_bottom tailOffset_def tailSize_def tailHeight_def)
  have b: "filter isTriangle (drawBubble ?c ?t TopRight Rounded (Some 5) (Some 5))
           = [Triangle (50, 73.8) (60, 81.8) (60, 73.8)]"
    using t [THEN conjunct2, THEN conjunct1]
    unfolding w h xy
    by (simp add: SCALE_def pos_includes_bottom tailOffset_def tailSize_def tailHeight_def)
  have m: "(50 :: real) = 2 * (16 + 60 / 2) - 42 \<and> (60 :: real) = 2 * (16 + 60 / 2) - 32"
    using t [THEN conjunct2, THEN conjunct2]
    unfolding w h xy
    by (simp add: SCALE_def tailOffset_def tailSize_def)
  show ?thesis
    by (rule conjI [OF h1 conjI [OF h2 conjI [OF h3 conjI [OF h4 conjI [OF a conjI [OF b m]]]]]])
qed

text \<open>
  Claim C8 (border-overlap mask). For a shape other than a thought bubble, the white
  rectangle over the seam is \<open>tailSize - 2 * borderWidth\<close> wide, which is not negative and
  not more than the width of the tail; it lies between the two ends of the tail's base;
  and it is \<open>2 * borderWidth\<close> high around the edge where the tail sits, so it covers the
  stroke of width \<open>borderWidth\<close> centred on that edge.
\<close>

theorem cover_rect_bounds:
  fixes c :: canvas and "text" :: jsstring and pos :: BubblePosition
    and shape :: BubbleShape and posX posY :: "real option"
  defines "x \<equiv> fst (bubbleXY c posX posY)" and "y \<equiv> snd (bubbleXY c posX posY)"
    and "W \<equiv> bubbleWidth c text" and "H \<equiv> bubbleHeight c text"
  defines "edge \<equiv> (if pos_includes pos ''bottom'' then y else y + H)"
    and "tipY \<equiv> (if pos_includes pos ''bottom'' then y - tailHeight c else y + H + tailHeight c)"
    and "b1 \<equiv> (if pos_includes pos ''left'' then x + tailOffset c
                else x + W - tailOffset c - tailSize c)"
  defines "b2 \<equiv> b1 + tailSize c"
  defines "tipX \<equiv> (if pos_includes pos ''left'' then b1 else b2)"
    and "coverX \<equiv> b1 + borderWidth c" and "coverY \<equiv> edge - borderWidth c"
    and "coverW \<equiv> tailSize c - 2 * borderWidth c" and "coverH \<equiv> 2 * borderWidth c"
  assumes nonblank: "trim text \<noteq> []" and tailed: "shape \<noteq> Thought"
  shows "filter isTriangle (drawBubble c text pos shape posX posY) =
           [Triangle (b1, edge) (tipX, tipY) (b2, edge)] \<and>
         filter isFillRect (drawBubble c text pos shape posX posY) =
           [FillRect coverX coverY coverW coverH] \<and>
         SetLineWidth (borderWidth c) \<in> set (drawBubble c text pos shape posX posY) \<and>
         0 \<le> coverW \<and> coverW \<le> tailSize c \<and>
         b1 \<le> coverX \<and> coverX + coverW \<le> b2 \<and>
         coverY \<le> edge - borderWidth c / 2 \<and> edge + borderWidth c / 2 \<le> coverY + coverH"
proof -
  have S: "0 \<le> SCALE c" by (rule SCALE_nonneg)
  have "filter isTriangle (drawBubble c text pos shape posX posY) =
           [Triangle (b1, edge) (tipX, tipY) (b2, edge)]"
    unfolding drawBubble_tail_shapes(2) [OF nonblank tailed] drawTail_shapes
    by (simp add: baseX1_def baseX2_def x_def y_def W_def H_def b1_def b2_def edge_def
        tipX_def tipY_def)
  moreover have "filter isFillRect (drawBubble c text pos shape posX posY) =
           [FillRect coverX coverY coverW coverH]"
    unfolding drawBubble_tail_shapes(3) [OF nonblank tailed] drawTail_shapes
    by (simp add: baseX1_def x_def y_def W_def H_def b1_def edge_def
        coverX_def coverY_def coverW_def coverH_def)
  moreover have "SetLineWidth (borderWidth c) \<in> set (drawBubble c text pos shape posX posY)"
    by (simp add: drawBubble_nonblank [OF nonblank])
  moreover from S have "0 \<le> coverW" and "coverW \<le> tailSize c"
    and "b1 \<le> coverX" and "coverX + coverW \<le> b2"
    and "coverY \<le> edge - borderWidth c / 2" and "edge + borderWidth c / 2 \<le> coverY + coverH"
    by (simp_all add: coverW_def coverX_def coverY_def coverH_def b2_def
        tailSize_def borderWidth_def)
  ultimately show ?thesis by (intro conjI)
qed

text \<open>
  The theorem on a canvas 320 wide, for the text \<open>Hi\<close> in a square bubble at the bottom
  right: the base of the tail is \<open>[50, 60]\<close> on the top edge at 16, the cover is 8 by 2
  at (51, 15).
\<close>

theorem cover_rect_bounds_witness:
  "trim (js ''Hi'') \<noteq> [] \<and> Square \<noteq> Thought \<and>
   filter isTriangle
     (drawBubble
        \<lparr>width = 320, height = 320,
         measureText = \<lambda>f s. real (length s) * real_of_int f / 2, hasRoundRect = True\<rparr>
        (js ''Hi'') BottomRight Square (Some 5) (Some 5))
   = [Triangle (50, 16) (60, 8) (60, 16)] \<and>
   filter isFillRect
     (drawBubble
        \<lparr>width = 320, height = 320,
         measureText = \<lambda>f s. real (length s) * real_of_int f / 2, hasRoundRect = True\<rparr>
        (js ''Hi'') BottomRight Square (Some 5) (Some 5))
   = [FillRect 51 15 8 2]"
proof -
  let ?c = "\<lparr>width = 320, height = 320,
         measureText = \<lambda>f s. real (length s) * real_of_int f / 2, hasRoundRect = True\<rparr>"
  let ?t = "js ''Hi''"
  have f: "fontSize ?t = 38"
    by (simp add: fontSize_def js_def)
  have h1: "trim ?t \<noteq> []"
    by (simp add: trim_def js_def isWhiteSpace_def)
  have h2: "Square \<noteq> Thought"
    by simp
  have l: "bubbleLines ?c ?t = [?t]"
    by (rule bubbleLines_single) (simp add: js_def SPACE_def)
  have w: "bubbleWidth ?c ?t = 60"
    unfolding bubbleWidth_def textBlockWidth_def l f
    by (simp add: PADDING_def MIN_WIDTH_def SCALE_def js_def)
  have xy: "bubbleXY ?c (Some 5) (Some 5) = (16, 16)"
    by (simp add: bubbleXY_def)
  note t = cover_rect_bounds [OF h1 h2, where c = ?c and pos = BottomRight
      and posX = "Some 5" and posY = "Some 5"]
  have a: "filter isTriangle (drawBubble ?c ?t BottomRight Square (Some 5) (Some 5))
           = [Triangle (50, 16) (60, 8) (60, 16)]"
    using t [THEN conjunct1]
    unfolding w xy
    by (simp add: SCALE_def pos_includes_bottom pos_includes_left tailOffset_def tailSize_def
        tailHeight_def)
  have b: "filter isFillRect (drawBubble ?c ?t BottomRight Square (Some 5) (Some 5))
           = [FillRect 51 15 8 2]"
    using t [THEN conjunct2, THEN conjunct1]
    unfolding w xy
    by (simp add: SCALE_def pos_includes_bottom pos_includes_left tailOffset_def tailSize_def
        borderWidth_def)
  show ?thesis
    by (rule conjI [OF h1 conjI [OF h2 conjI [OF a b]]])
qed

section \<open>Quick positions\<close>

text \<open>
  Claim C9 (quick-position determinism). With \<open>updatePanel\<close> as the update callback,
  \<open>handleQuickPos\<close> leaves every other panel as it is and sets, in the panel of the given
  identifier, the position and both coordinates of the chosen character together:
  (5, 5) for top-left, (55, 5) for top-right, (5, 70) for bottom-left and (55, 70) for
  bottom-right, whatever the panel held before.
\<close>

theorem quick_position:
  "handleQuickPos updatePanel ident pos isChar1 panels =
     map (\<lambda>p. if panelId p = ident
               then (if isChar1
                     then p\<lparr>char1BubblePos := Some pos,
                            char1BubbleX := Some (case pos of TopLeft \<Rightarrow> 5 | TopRight \<Rightarrow> 55
                                                  | BottomLeft \<Rightarrow> 5 | BottomRight \<Rightarrow> 55),
                            char1BubbleY := Some (case pos of TopLeft \<Rightarrow> 5 | TopRight \<Rightarrow> 5
                                                  | BottomLeft \<Rightarrow> 70 | BottomRight \<Rightarrow> 70)\<rparr>
                     else p\<lparr>char2BubblePos := Some pos,
                            char2BubbleX := Some (case pos of TopLeft \<Rightarrow> 5 | TopRight \<Rightarrow> 55
                                                  | BottomLeft \<Rightarrow> 5 | BottomRight \<Rightarrow> 55),
                            char2BubbleY := Some (case pos of TopLeft \<Rightarrow> 5 | TopRight \<Rightarrow> 5
                                                  | BottomLeft \<Rightarrow> 70 | BottomRight \<Rightarrow> 70)\<rparr>)
               else p) panels"
  by (cases pos) (simp_all add: handleQuickPos_def updatePanel_def)

text \<open>
  The theorem for top-right on a panel that held bottom-left at (23, 42).
\<close>

theorem quick_position_witness:
  "map (\<lambda>p. (char1BubblePos p, char1BubbleX p, char1BubbleY p))
     (handleQuickPos updatePanel ''p'' TopRight True
        [\<lparr>panelId = ''p'', index = 0,
          char1Dialogue = js ''Hi'', char1BubblePos = Some BottomLeft,
          char1BubbleShape = Some Rounded, char1BubbleX = Some 23, char1BubbleY = Some 42,
          char2Dialogue = [], char2BubblePos = Some TopRight,
          char2BubbleShape = Some Rounded, char2BubbleX = Some 55, char2BubbleY = Some 5,
          imageUrl = None, isLoading = False\<rparr>])
   = [(Some TopRight, Some 55, Some 5)]"
  unfolding quick_position by simp

section \<open>Missing coordinates\<close>

text \<open>
  Claim C10 (raster fallback position). When the x or the y percentage is undefined,
  \<open>drawBubble\<close> puts the box at the pixel (30, 30), on every canvas; the overlay
  replaces a missing percentage by 5 and 5 for character 1 and by 55 and 5 for
  character 2, each coordinate on its own.
\<close>

theorem raster_fallback_position:
  assumes "trim text \<noteq> []" and "posX = None \<or> posY = None"
  shows "filter isBox (drawBubble c text pos shape posX posY) =
           [if hasRoundRect c
            then RoundRect 30 30 (bubbleWidth c text) (bubbleHeight c text) (radius c shape)
                   (shape = Thought)
            else Rect 30 30 (bubbleWidth c text) (bubbleHeight c text) (shape = Thought)] \<and>
         map leftPct (char1Bubble (panel\<lparr>char1BubbleX := None\<rparr>)) =
           (if char1Dialogue panel = [] then [] else [5]) \<and>
         map topPct (char1Bubble (panel\<lparr>char1BubbleY := None\<rparr>)) =
           (if char1Dialogue panel = [] then [] else [5]) \<and>
         map leftPct (char2Bubble (panel\<lparr>char2BubbleX := None\<rparr>)) =
           (if char2Dialogue panel = [] then [] else [55]) \<and>
         map topPct (char2Bubble (panel\<lparr>char2BubbleY := None\<rparr>)) =
           (if char2Dialogue panel = [] then [] else [5])"
proof -
  from assms(2) have "bubbleXY c posX posY = (30, 30)"
    by (auto simp: bubbleXY_def split: option.splits)
  then show ?thesis
    by (simp add: filter_isBox_drawBubble [OF assms(1)] char1Bubble_def char2Bubble_def)
qed

text \<open>
  The theorem on a canvas of 1024 by 1024, for the text \<open>Hi\<close> with no x percentage.
\<close>

theorem raster_fallback_position_witness:
  "trim (js ''Hi'') \<noteq> [] \<and> (None = (None :: real option) \<or> Some (5 :: real) = None) \<and>
   filter isBox
     (drawBubble
        \<lparr>width = 1024, height = 1024,
         measureText = \<lambda>f s. real (length s) * real_of_int f / 2, hasRoundRect = True\<rparr>
        (js ''Hi'') TopLeft Rounded None (Some 5))
   = [RoundRect 30 30 192 93 38.4 False]"
proof -
  let ?c = "\<lparr>width = 1024, height = 1024,
         measureText = \<lambda>f s. real (length s) * real_of_int f / 2, hasRoundRect = True\<rparr>"
  let ?t = "js ''Hi''"
  have f: "fontSize ?t = 38"
    by (simp add: fontSize_def js_def)
  have h1: "trim ?t \<noteq> []"
    by (simp add: trim_def js_def isWhiteSpace_def)
  have h2: "None = (None :: real option) \<or> Some (5 :: real) = None"
    by simp
  have l: "bubbleLines ?c ?t = [?t]"
    by (rule bubbleLines_single) (simp add: js_def SPACE_def)
  have w: "bubbleWidth ?c ?t = 192"
    unfolding bubbleWidth_def textBlockWidth_def l f
    by (simp add: PADDING_def MIN_WIDTH_def SCALE_def js_def)
  have h: "bubbleHeight ?c ?t = 93"
    unfolding bubbleHeight_def l lineHeight_def f
    by (simp add: PADDING_def SCALE_def)
  note t = raster_fallback_position [OF h1 h2, where c = ?c and pos = TopLeft and shape = Rounded]
  have a: "filter isBox (drawBubble ?c ?t TopLeft Rounded None (Some 5))
           = [RoundRect 30 30 192 93 38.4 False]"
    using t [THEN conjunct1]
    unfolding w h
    by (simp add: radius_def RADIUS_XL_def SCALE_def)
  show ?thesis
    by (rule conjI [OF h1 conjI [OF h2 a]])
qed

end
